theory Spec2Isabelle
  imports Complex_Main "HOL-Library.Multiset"
begin

section \<open>TapPay API: values, identifiers and errors\<close>

text \<open>
  The handlers of \<^verbatim>\<open>main.py\<close> are embedded as functions of the document store and of
  the values the handler reads from its environment (clock, generated identifier,
  signing secret). A handler that writes (\<^verbatim>\<open>signup\<close>, \<^verbatim>\<open>send_money\<close>) gives the pair of
  its outcome and the store afterwards; a handler that only reads gives its outcome. A
  raised exception is the \<open>Inl\<close> branch of the outcome.
\<close>

text \<open>
  \<^verbatim>\<open>datetime\<close> values are microseconds since the epoch (UTC). Amounts are Python floats;
  they are embedded as reals, so rounding of floating-point addition is not part of the
  model.
\<close>

type_synonym datetime = int

text \<open>
  \<^verbatim>\<open>bson.ObjectId\<close>: twelve bytes, written as 24 hexadecimal digits. The embedding keeps
  the canonical (lower-case) digits. \<^verbatim>\<open>ObjectId(s)\<close> accepts a 24-character hexadecimal
  string in either case and raises \<^verbatim>\<open>InvalidId\<close> on every other string;
  \<^verbatim>\<open>str(oid)\<close> prints the digits in lower case.
\<close>

datatype object_id = Oid string

fun str_oid :: "object_id \<Rightarrow> string" where
  "str_oid (Oid h) = h"

definition is_lower_hex :: "char \<Rightarrow> bool" where
  "is_lower_hex c = (c \<in> set ''0123456789abcdef'')"

definition is_hex :: "char \<Rightarrow> bool" where
  "is_hex c = (is_lower_hex c \<or> c \<in> set ''ABCDEF'')"

definition lower_char :: "char \<Rightarrow> char" where
  "lower_char c =
     (case map_of (zip ''ABCDEFGHIJKLMNOPQRSTUVWXYZ'' ''abcdefghijklmnopqrstuvwxyz'') c of
        None \<Rightarrow> c
      | Some l \<Rightarrow> l)"

text \<open>
  Lowering of the letters A to Z, which is what printing an \<^verbatim>\<open>ObjectId\<close> does to its
  hexadecimal digits. It agrees with \<^verbatim>\<open>str.lower()\<close> on ASCII strings only.
\<close>

definition str_lower :: "string \<Rightarrow> string" where
  "str_lower s = map lower_char s"


datatype error =
    HTTPException nat string
  | InvalidId
  | KeyError

text \<open>
  The status code of the response to a raised \<^verbatim>\<open>HTTPException\<close> is the one it carries.
  What the framework answers to any other exception is not part of the model.
\<close>

fun status_code :: "error \<Rightarrow> nat" where
  "status_code (HTTPException c d) = c"

definition ObjectId :: "string \<Rightarrow> error + object_id" where
  "ObjectId s =
     (if length s = 24 \<and> list_all is_hex s then Inr (Oid (str_lower s)) else Inl InvalidId)"

section \<open>Tokens\<close>

text \<open>
  \<^verbatim>\<open>jose.jwt\<close> is a library outside the repository. A token is embedded symbolically: the
  claims together with the key that signed them, or a string that is no signed token at
  all. \<^verbatim>\<open>jwt.encode\<close> writes the expiry as whole seconds (\<^verbatim>\<open>timegm\<close>);
  \<^verbatim>\<open>jwt.decode\<close> raises \<^verbatim>\<open>JWTError\<close> on a token that is malformed, signed with another
  key, or whose expiry lies before the current second.
\<close>

record claims =
  sub :: "string option"
  exp_claim :: "int option"

datatype token = Signed claims string | Malformed string

definition timegm :: "datetime \<Rightarrow> int" where
  "timegm d = d div 1000000"

definition timedelta_minutes :: "int \<Rightarrow> int" where
  "timedelta_minutes m = m * 60 * 1000000"

definition ACCESS_TOKEN_EXPIRE_MINUTES :: int where
  "ACCESS_TOKEN_EXPIRE_MINUTES = 60 * 24 * 7"

definition jwt_encode :: "string option \<Rightarrow> datetime \<Rightarrow> string \<Rightarrow> token" where
  "jwt_encode s expire key = Signed \<lparr>sub = s, exp_claim = Some (timegm expire)\<rparr> key"



section \<open>Documents and the store\<close>

record user_doc =
  user_id :: object_id
  name :: string
  handle :: string
  email :: string
  password_hash :: string
  profileImg :: "string option"
  qrCodeUrl :: "string option"
  dateCreated :: datetime

record tx_doc =
  tx_id :: object_id
  fromUser :: string
  toUser :: string
  amount :: real
  timestamp :: datetime

text \<open>
  Modelled from the spec: the document store \<^verbatim>\<open>db\<close> of the module \<^verbatim>\<open>database\<close>, which
  is not among the sources. Each collection is the list of its documents in insertion
  order; \<^verbatim>\<open>find_one\<close> gives the first document that matches or nothing;
  \<^verbatim>\<open>insert_one\<close> is a pure insert that stores the document under the identifier the
  store assigns (an input of the model) and gives that identifier back;
  \<^verbatim>\<open>find(...).sort("timestamp", -1)\<close> gives the matching documents, latest first.
  The driver the handlers are written against (\<^verbatim>\<open>bson.ObjectId\<close>, \<^verbatim>\<open>inserted_id\<close>, the
  \<^verbatim>\<open>_id\<close> that \<^verbatim>\<open>get_history\<close> pops from a found document) keeps the identifier of a
  document in the document itself under \<^verbatim>\<open>_id\<close>: \<^verbatim>\<open>insert_one\<close> writes the identifier it
  assigns into the dictionary it is handed, and the handlers below say where they read
  that dictionary afterwards. The precision at which the store keeps a \<^verbatim>\<open>datetime\<close> is
  not part of this model.
\<close>

record db =
  users :: "user_doc list"
  transactions :: "tx_doc list"

definition find_one :: "('a \<Rightarrow> bool) \<Rightarrow> 'a list \<Rightarrow> 'a option" where
  "find_one q docs = List.find q docs"

definition insert_user :: "user_doc \<Rightarrow> db \<Rightarrow> db" where
  "insert_user d s = s\<lparr>users := users s @ [d]\<rparr>"

definition insert_transaction :: "tx_doc \<Rightarrow> db \<Rightarrow> db" where
  "insert_transaction d s = s\<lparr>transactions := transactions s @ [d]\<rparr>"

definition find_sorted_desc :: "(tx_doc \<Rightarrow> bool) \<Rightarrow> tx_doc list \<Rightarrow> tx_doc list" where
  "find_sorted_desc q docs = sort_key (\<lambda>t. - timestamp t) (filter q docs)"

section \<open>Python values of the responses\<close>

datatype pyval =
    PNone
  | PStr string
  | PFloat real
  | PInt int
  | PDatetime datetime
  | PObjectId object_id
  | PToken token
  | PDict "(string \<times> pyval) list"
  | PList "pyval list"

text \<open>A dictionary keeps its keys in insertion order; assignment to a new key appends.\<close>

type_synonym pydict = "(string \<times> pyval) list"

definition dict_set :: "string \<Rightarrow> pyval \<Rightarrow> pydict \<Rightarrow> pydict" where
  "dict_set k v d =
     (if k \<in> set (map fst d) then map (\<lambda>(k', v'). if k' = k then (k', v) else (k', v')) d
      else d @ [(k, v)])"

definition dict_pop :: "string \<Rightarrow> pydict \<Rightarrow> (pyval \<times> pydict) option" where
  "dict_pop k d =
     (case map_of d k of None \<Rightarrow> None | Some v \<Rightarrow> Some (v, filter (\<lambda>(k', v'). k' \<noteq> k) d))"

text \<open>
  \<^verbatim>\<open>{**base, **d}\<close>: the entries of \<open>d\<close> are assigned in order onto those of \<open>base\<close>.
\<close>

definition dict_update :: "pydict \<Rightarrow> pydict \<Rightarrow> pydict" where
  "dict_update base d = foldl (\<lambda>acc (k, v). dict_set k v acc) base d"

text \<open>
  \<^verbatim>\<open>str(v)\<close> on the two kinds of value an \<^verbatim>\<open>_id\<close> holds. \<^verbatim>\<open>str\<close> never raises; how it
  prints the other values is left unspecified.
\<close>

fun py_str :: "pyval \<Rightarrow> string" where
  "py_str (PObjectId i) = str_oid i"
| "py_str (PStr s) = s"

definition opt_str :: "string option \<Rightarrow> pyval" where
  "opt_str v = (case v of None \<Rightarrow> PNone | Some s \<Rightarrow> PStr s)"

text \<open>A transaction document as the driver hands it to the handler.\<close>

definition tx_dict :: "tx_doc \<Rightarrow> pydict" where
  "tx_dict t =
     [(''_id'', PObjectId (tx_id t)), (''fromUser'', PStr (fromUser t)),
      (''toUser'', PStr (toUser t)), (''amount'', PFloat (amount t)),
      (''timestamp'', PDatetime (timestamp t))]"

section \<open>Transaction history\<close>

text \<open>
  \<^verbatim>\<open>get_history\<close>. The loop body \<^verbatim>\<open>t["id"] = str(t.pop("_id"))\<close> is \<open>rekey\<close>; the
  \<^verbatim>\<open>pop\<close> raises \<^verbatim>\<open>KeyError\<close> on a dictionary with no \<^verbatim>\<open>_id\<close>, which ends the loop
  and the handler.
\<close>

definition rekey :: "pydict \<Rightarrow> error + pydict" where
  "rekey t =
     (case dict_pop ''_id'' t of
        None \<Rightarrow> Inl KeyError
      | Some (v, t') \<Rightarrow> Inr (dict_set ''id'' (PStr (py_str v)) t'))"

fun rekey_all :: "pydict list \<Rightarrow> error + pydict list" where
  "rekey_all [] = Inr []"
| "rekey_all (t # ts) =
     (case rekey t of
        Inl e \<Rightarrow> Inl e
      | Inr t' \<Rightarrow> (case rekey_all ts of Inl e \<Rightarrow> Inl e | Inr ts' \<Rightarrow> Inr (t' # ts')))"

definition get_history :: "db \<Rightarrow> string \<Rightarrow> user_doc \<Rightarrow> error + pydict list" where
  "get_history s userId user =
     (if str_oid (user_id user) \<noteq> userId then Inl (HTTPException 403 ''Forbidden'')
      else
        let txs = map tx_dict
              (find_sorted_desc (\<lambda>t. fromUser t = userId \<or> toUser t = userId) (transactions s))
        in rekey_all txs)"

text \<open>The dictionary of a stored transaction once the loop has re-keyed it.\<close>

abbreviation history_entry :: "tx_doc \<Rightarrow> pydict" where
  "history_entry t \<equiv>
     [(''fromUser'', PStr (fromUser t)), (''toUser'', PStr (toUser t)),
      (''amount'', PFloat (amount t)), (''timestamp'', PDatetime (timestamp t)),
      (''id'', PStr (str_oid (tx_id t)))]"

section \<open>Authentication\<close>

text \<open>
  \<^verbatim>\<open>create_access_token\<close>, for the one shape of \<^verbatim>\<open>data\<close> the handlers pass
  (\<^verbatim>\<open>{"sub": ...}\<close>). \<^verbatim>\<open>now\<close> is the clock it reads; a zero \<^verbatim>\<open>timedelta\<close> is falsy, so
  \<^verbatim>\<open>expires_delta or ...\<close> takes the default for it as for \<^verbatim>\<open>None\<close>.
\<close>

definition create_access_token :: "string \<Rightarrow> string \<Rightarrow> datetime \<Rightarrow> int option \<Rightarrow> token" where
  "create_access_token SECRET_KEY subject now expires_delta =
     (let delta = (case expires_delta of
                     None \<Rightarrow> timedelta_minutes ACCESS_TOKEN_EXPIRE_MINUTES
                   | Some d \<Rightarrow> if d = 0 then timedelta_minutes ACCESS_TOKEN_EXPIRE_MINUTES else d);
          expire = now + delta
      in jwt_encode (Some subject) expire SECRET_KEY)"


section \<open>Request schemas\<close>

record UserCreate =
  uc_name :: string
  uc_handle :: string
  uc_email :: string
  uc_password :: string
  uc_profileImg :: "string option"

record UserLogin =
  ul_email :: string
  ul_password :: string

record TransactionCreate =
  toHandle :: "string option"
  toUserId :: "string option"
  tc_amount :: real

text \<open>
  The field constraints of the schemas (the pattern of \<^verbatim>\<open>UserCreate.handle\<close>, the
  \<^verbatim>\<open>gt=0\<close> of \<^verbatim>\<open>TransactionCreate.amount\<close>, \<^verbatim>\<open>EmailStr\<close>) are enforced by the framework
  before a handler runs; the handlers below receive the validated payload, and neither
  that validation nor the response to its failure is part of the model.
\<close>

section \<open>Signup, login and profile\<close>

text \<open>
  \<^verbatim>\<open>passlib\<close>'s context is outside the repository: \<^verbatim>\<open>pwd_hash\<close> stands for
  \<^verbatim>\<open>pwd_context.hash\<close> and \<^verbatim>\<open>pwd_verify\<close> for \<^verbatim>\<open>pwd_context.verify\<close>. Likewise
  \<open>lower\<close> stands for Python's \<^verbatim>\<open>str.lower\<close>, which lowers every cased character; the
  examples pass \<open>str_lower\<close> for it, on ASCII addresses.
\<close>

definition signup ::
  "string \<Rightarrow> (string \<Rightarrow> string) \<Rightarrow> (string \<Rightarrow> string) \<Rightarrow> db \<Rightarrow> datetime \<Rightarrow> object_id
     \<Rightarrow> datetime \<Rightarrow> UserCreate \<Rightarrow> (error + pyval) \<times> db" where
  "signup SECRET_KEY pwd_hash lower s now new_id token_now payload =
     (if find_one (\<lambda>u. handle u = uc_handle payload) (users s) \<noteq> None
      then (Inl (HTTPException 400 ''Handle already taken''), s)
      else if find_one (\<lambda>u. email u = lower (uc_email payload)) (users s) \<noteq> None
      then (Inl (HTTPException 400 ''Email already registered''), s)
      else
        let password_hash = pwd_hash (uc_password payload);
            doc = \<lparr>user_id = new_id, name = uc_name payload, handle = uc_handle payload,
                   email = lower (uc_email payload), password_hash = password_hash,
                   profileImg = uc_profileImg payload, qrCodeUrl = None, dateCreated = now\<rparr>;
            s' = insert_user doc s;
            result_id = new_id;
            tok = create_access_token SECRET_KEY (str_oid result_id) token_now None
        in (Inr (PDict
              [(''token'', PToken tok),
               (''user'', PDict
                  [(''id'', PStr (str_oid result_id)),
                   (''name'', PStr (name doc)),
                   (''handle'', PStr (handle doc)),
                   (''profileImg'', opt_str (profileImg doc)),
                   (''qrCodeUrl'', opt_str (qrCodeUrl doc)),
                   (''dateCreated'', PDatetime (dateCreated doc))])]), s'))"

definition login ::
  "string \<Rightarrow> (string \<Rightarrow> string \<Rightarrow> bool) \<Rightarrow> (string \<Rightarrow> string) \<Rightarrow> db \<Rightarrow> datetime \<Rightarrow> UserLogin
     \<Rightarrow> error + pyval" where
  "login SECRET_KEY pwd_verify lower s token_now payload =
     (case find_one (\<lambda>u. email u = lower (ul_email payload)) (users s) of
        None \<Rightarrow> Inl (HTTPException 400 ''Invalid credentials'')
      | Some doc \<Rightarrow>
          if \<not> pwd_verify (ul_password payload) (password_hash doc)
          then Inl (HTTPException 400 ''Invalid credentials'')
          else
            let tok = create_access_token SECRET_KEY (str_oid (user_id doc)) token_now None
            in Inr (PDict
                 [(''token'', PToken tok),
                  (''user'', PDict
                     [(''id'', PStr (str_oid (user_id doc))),
                      (''name'', PStr (name doc)),
                      (''handle'', PStr (handle doc)),
                      (''profileImg'', opt_str (profileImg doc)),
                      (''qrCodeUrl'', opt_str (qrCodeUrl doc)),
                      (''dateCreated'', PDatetime (dateCreated doc))])]))"

definition get_profile :: "db \<Rightarrow> string \<Rightarrow> error + pyval" where
  "get_profile s h =
     (case find_one (\<lambda>u. handle u = h) (users s) of
        None \<Rightarrow> Inl (HTTPException 404 ''User not found'')
      | Some doc \<Rightarrow>
          Inr (PDict
            [(''id'', PStr (str_oid (user_id doc))),
             (''name'', PStr (name doc)),
             (''handle'', PStr (handle doc)),
             (''profileImg'', opt_str (profileImg doc)),
             (''qrCodeUrl'', opt_str (qrCodeUrl doc)),
             (''dateCreated'', PDatetime (dateCreated doc))]))"

section \<open>Sending money\<close>

text \<open>
  \<^verbatim>\<open>send_money\<close>. \<open>stored\<close> is the document \<^verbatim>\<open>insert_one\<close> stores for the dictionary
  \<^verbatim>\<open>tx_doc\<close>; the second binding of \<open>tx_doc\<close> is that dictionary after \<^verbatim>\<open>insert_one\<close> has
  written \<^verbatim>\<open>_id\<close> into it, which is what \<^verbatim>\<open>{"id": str(tx_id), **tx_doc}\<close> then spreads
  into the response.
\<close>

text \<open>Python's truth value of an \<^verbatim>\<open>Optional[str]\<close>: \<^verbatim>\<open>None\<close> and \<^verbatim>\<open>""\<close> are falsy.\<close>

definition truthy :: "string option \<Rightarrow> bool" where
  "truthy v = (case v of None \<Rightarrow> False | Some x \<Rightarrow> x \<noteq> [])"

definition str_val :: "string option \<Rightarrow> string" where
  "str_val v = (case v of None \<Rightarrow> [] | Some x \<Rightarrow> x)"

definition send_money ::
  "db \<Rightarrow> datetime \<Rightarrow> object_id \<Rightarrow> TransactionCreate \<Rightarrow> user_doc \<Rightarrow> (error + pyval) \<times> db" where
  "send_money s now new_id payload user =
     (let lookup =
        (if truthy (toUserId payload) then
           (case ObjectId (str_val (toUserId payload)) of
              Inl e \<Rightarrow> Inl (HTTPException 400 ''Invalid toUserId'')
            | Inr i \<Rightarrow> Inr (find_one (\<lambda>u. user_id u = i) (users s)))
         else if truthy (toHandle payload) then
           Inr (find_one (\<lambda>u. handle u = str_val (toHandle payload)) (users s))
         else Inl (HTTPException 400 ''Receiver not specified''))
      in case lookup of
           Inl e \<Rightarrow> (Inl e, s)
         | Inr None \<Rightarrow> (Inl (HTTPException 404 ''Receiver not found''), s)
         | Inr (Some to_user) \<Rightarrow>
             let tx_doc =
                   [(''fromUser'', PStr (str_oid (user_id user))),
                    (''toUser'', PStr (str_oid (user_id to_user))),
                    (''amount'', PFloat (tc_amount payload)),
                    (''timestamp'', PDatetime now)];
                 stored = \<lparr>tx_id = new_id, fromUser = str_oid (user_id user),
                           toUser = str_oid (user_id to_user), amount = tc_amount payload,
                           timestamp = now\<rparr>;
                 s' = insert_transaction stored s;
                 tx_doc = dict_set ''_id'' (PObjectId new_id) tx_doc;
                 inserted_id = new_id
             in (Inr (PDict
                   [(''status'', PStr ''sent''),
                    (''transaction'',
                     PDict (dict_update [(''id'', PStr (str_oid inserted_id))] tx_doc))]),
                 s'))"

section \<open>Dashboard statistics\<close>

text \<open>
  The aggregation pipeline: \<^verbatim>\<open>$match\<close> keeps the documents the user sent or received,
  \<^verbatim>\<open>$group\<close> with \<^verbatim>\<open>_id: None\<close> folds them into one document of four \<^verbatim>\<open>$sum\<close>
  accumulators, each over a \<^verbatim>\<open>$cond\<close>; it emits no document when nothing matched.
\<close>

definition mongo_sum :: "('a \<Rightarrow> 'b::{zero,plus}) \<Rightarrow> 'a list \<Rightarrow> 'b" where
  "mongo_sum f docs = foldl (\<lambda>acc d. acc + f d) 0 docs"

record stats_doc =
  total_sent :: real
  total_received :: real
  count_sent :: int
  count_received :: int

definition aggregate :: "string \<Rightarrow> tx_doc list \<Rightarrow> stats_doc list" where
  "aggregate uid docs =
     (let matched = filter (\<lambda>t. fromUser t = uid \<or> toUser t = uid) docs
      in if matched = [] then []
         else [\<lparr>total_sent = mongo_sum (\<lambda>t. if fromUser t = uid then amount t else 0) matched,
                 total_received = mongo_sum (\<lambda>t. if toUser t = uid then amount t else 0) matched,
                 count_sent = mongo_sum (\<lambda>t. if fromUser t = uid then 1 else 0) matched,
                 count_received = mongo_sum (\<lambda>t. if toUser t = uid then 1 else 0) matched\<rparr>])"

definition dashboard_stats :: "db \<Rightarrow> user_doc \<Rightarrow> pyval" where
  "dashboard_stats s user =
     (let uid = str_oid (user_id user);
          agg = aggregate uid (transactions s);
          stats = (case agg of
                     [] \<Rightarrow> \<lparr>total_sent = 0, total_received = 0, count_sent = 0, count_received = 0\<rparr>
                   | d # ds \<Rightarrow> d)
      in PDict
           [(''total_sent'', PFloat (total_sent stats)),
            (''total_received'', PFloat (total_received stats)),
            (''count_sent'', PInt (count_sent stats)),
            (''count_received'', PInt (count_received stats))])"

section \<open>The public user view of the specification\<close>

text \<open>
  The specification's public user view of a user document: \<open>id\<close>, \<open>name\<close>, \<open>handle\<close>,
  \<open>profileImg\<close>, \<open>qrCodeUrl\<close> and \<open>dateCreated\<close>, and nothing else. The responses of the
  handlers are compared with it below.
\<close>

definition public_user_view :: "user_doc \<Rightarrow> pydict" where
  "public_user_view d =
     [(''id'', PStr (str_oid (user_id d))),
      (''name'', PStr (name d)),
      (''handle'', PStr (handle d)),
      (''profileImg'', opt_str (profileImg d)),
      (''qrCodeUrl'', opt_str (qrCodeUrl d)),
      (''dateCreated'', PDatetime (dateCreated d))]"

section \<open>A small store for the examples\<close>

definition alice_id :: object_id where
  "alice_id = Oid ''65a000000000000000000001''"

definition bob_id :: object_id where
  "bob_id = Oid ''65a000000000000000000002''"

definition carol_id :: object_id where
  "carol_id = Oid ''65a000000000000000000003''"

definition alice :: user_doc where
  "alice = \<lparr>user_id = alice_id, name = ''Ann'', handle = ''ann1'', email = ''a@x.com'',
             password_hash = ''$2b$12$hashofpw'', profileImg = None, qrCodeUrl = None,
             dateCreated = 1000000\<rparr>"

definition bob :: user_doc where
  "bob = \<lparr>user_id = bob_id, name = ''Bob'', handle = ''bob_2'', email = ''b@x.com'',
           password_hash = ''$2b$12$pw2'', profileImg = Some ''http://img/b.png'',
           qrCodeUrl = None, dateCreated = 2000000\<rparr>"

definition carol :: user_doc where
  "carol = \<lparr>user_id = carol_id, name = ''Carol'', handle = ''carol'', email = ''c@x.com'',
             password_hash = ''$2b$12$hashofpw3'', profileImg = None, qrCodeUrl = None,
             dateCreated = 2500000\<rparr>"

definition tx1 :: tx_doc where
  "tx1 = \<lparr>tx_id = Oid ''65b000000000000000000001'', fromUser = str_oid alice_id,
           toUser = str_oid bob_id, amount = 5, timestamp = 3000000\<rparr>"

definition tx2 :: tx_doc where
  "tx2 = \<lparr>tx_id = Oid ''65b000000000000000000002'', fromUser = str_oid bob_id,
           toUser = str_oid alice_id, amount = 2, timestamp = 4000000\<rparr>"

definition tx3 :: tx_doc where
  "tx3 = \<lparr>tx_id = Oid ''65b000000000000000000003'', fromUser = str_oid bob_id,
           toUser = str_oid bob_id, amount = 7, timestamp = 5000000\<rparr>"

definition db0 :: db where
  "db0 = \<lparr>users = [alice, bob], transactions = [tx1, tx2, tx3]\<rparr>"

definition pay_both :: TransactionCreate where
  "pay_both = \<lparr>toHandle = Some ''ann1'', toUserId = Some ''65A000000000000000000002'', tc_amount = 3\<rparr>"

definition pay_none :: TransactionCreate where
  "pay_none = \<lparr>toHandle = None, toUserId = None, tc_amount = 3\<rparr>"

definition pay_unknown_id :: TransactionCreate where
  "pay_unknown_id = \<lparr>toHandle = None, toUserId = Some ''65a0000000000000000000ff'', tc_amount = 3\<rparr>"

definition pay_unknown_handle :: TransactionCreate where
  "pay_unknown_handle = \<lparr>toHandle = Some ''nobody'', toUserId = None, tc_amount = 3\<rparr>"

definition pay_bad_id :: TransactionCreate where
  "pay_bad_id = \<lparr>toHandle = Some ''bob_2'', toUserId = Some ''not-an-id'', tc_amount = 3\<rparr>"

definition pay_empty_id :: TransactionCreate where
  "pay_empty_id = \<lparr>toHandle = Some ''bob_2'', toUserId = Some [], tc_amount = 3\<rparr>"

definition pay_empty_both :: TransactionCreate where
  "pay_empty_both = \<lparr>toHandle = Some [], toUserId = Some [], tc_amount = 3\<rparr>"

definition new_tx_id :: object_id where
  "new_tx_id = Oid ''65b000000000000000000004''"

definition demo_hash :: "string \<Rightarrow> string" where
  "demo_hash pw = ''$2b$12$'' @ pw"

definition demo_verify :: "string \<Rightarrow> string \<Rightarrow> bool" where
  "demo_verify pw h = (h = demo_hash pw)"

definition dave_id :: object_id where
  "dave_id = Oid ''65a000000000000000000004''"

definition signup_dave :: UserCreate where
  "signup_dave = \<lparr>uc_name = ''Dave'', uc_handle = ''dave_4'', uc_email = ''Dave@X.com'',
                   uc_password = ''pw'', uc_profileImg = None\<rparr>"

definition dave_doc :: user_doc where
  "dave_doc = \<lparr>user_id = dave_id, name = ''Dave'', handle = ''dave_4'', email = ''dave@x.com'',
                password_hash = ''$2b$12$pw'', profileImg = None, qrCodeUrl = None,
                dateCreated = 7000000\<rparr>"

definition signup_taken_both :: UserCreate where
  "signup_taken_both = \<lparr>uc_name = ''Eve'', uc_handle = ''ann1'', uc_email = ''B@x.com'',
                         uc_password = ''pw'', uc_profileImg = None\<rparr>"

definition signup_taken_handle :: UserCreate where
  "signup_taken_handle = \<lparr>uc_name = ''Eve'', uc_handle = ''ann1'', uc_email = ''e@x.com'',
                           uc_password = ''pw'', uc_profileImg = None\<rparr>"

definition signup_taken_email :: UserCreate where
  "signup_taken_email = \<lparr>uc_name = ''Eve'', uc_handle = ''eve_5'', uc_email = ''B@x.com'',
                          uc_password = ''pw'', uc_profileImg = None\<rparr>"

definition login_bob :: UserLogin where
  "login_bob = \<lparr>ul_email = ''B@x.com'', ul_password = ''pw2''\<rparr>"

section \<open>Properties of the transaction history\<close>

lemma rekey_tx_dict: "rekey (tx_dict t) = Inr (history_entry t)"
  by (simp add: rekey_def tx_dict_def dict_pop_def dict_set_def)

lemma rekey_all_tx_dict: "rekey_all (map tx_dict ts) = Inr (map history_entry ts)"
  by (induction ts) (simp_all add: rekey_tx_dict)

lemma find_sorted_desc_mset: "mset (find_sorted_desc q docs) = mset (filter q docs)"
  by (simp add: find_sorted_desc_def)

lemma find_sorted_desc_sorted:
  "sorted_wrt (\<lambda>a b. timestamp b \<le> timestamp a) (find_sorted_desc q docs)"
proof -
  have "sorted (map (\<lambda>t. - timestamp t) (find_sorted_desc q docs))"
    unfolding find_sorted_desc_def by (rule sorted_sort_key)
  then show ?thesis by (simp add: sorted_map)
qed

text \<open>
  C5. An authenticated request for the history of \<open>userId\<close> is refused with 403
  (Forbidden) and carries no transaction data when \<open>userId\<close> is not the string form of
  the authenticated user's own identifier, and succeeds when it is.
\<close>

theorem get_history_forbidden_unless_own:
  "(str_oid (user_id user) \<noteq> userId \<longrightarrow>
      get_history s userId user = Inl (HTTPException 403 ''Forbidden'') \<and>
      status_code (HTTPException 403 ''Forbidden'') = 403) \<and>
   (str_oid (user_id user) = userId \<longrightarrow> (\<exists>txs. get_history s userId user = Inr txs))"
  by (simp add: get_history_def rekey_all_tx_dict)

theorem get_history_forbidden_unless_own_witness:
  "str_oid (user_id alice) \<noteq> str_oid bob_id \<and>
   get_history db0 (str_oid bob_id) alice = Inl (HTTPException 403 ''Forbidden'') \<and>
   str_oid (user_id alice) = str_oid alice_id \<and>
   (\<exists>txs. get_history db0 (str_oid alice_id) alice = Inr txs)"
  using get_history_forbidden_unless_own [of alice "str_oid bob_id" db0]
    get_history_forbidden_unless_own [of alice "str_oid alice_id" db0]
  by (simp add: alice_def alice_id_def bob_id_def)

text \<open>
  C7. For the authenticated user \<open>uid\<close>, the history is exactly the stored transaction
  records in which \<open>uid\<close> is the sender or the receiver (as a multiset: each such record
  once, no other), latest timestamp first, each record written with the public string
  field \<open>id\<close> in place of the internal \<open>_id\<close>.
\<close>

theorem get_history_records:
  assumes "str_oid (user_id user) = uid"
  shows "\<exists>ts. get_history s uid user =
            Inr (map (\<lambda>t. [(''fromUser'', PStr (fromUser t)), (''toUser'', PStr (toUser t)),
                           (''amount'', PFloat (amount t)),
                           (''timestamp'', PDatetime (timestamp t)),
                           (''id'', PStr (str_oid (tx_id t)))]) ts) \<and>
          mset ts = mset (filter (\<lambda>t. fromUser t = uid \<or> toUser t = uid) (transactions s)) \<and>
          sorted_wrt (\<lambda>a b. timestamp b \<le> timestamp a) ts"
proof -
  let ?q = "\<lambda>t. fromUser t = uid \<or> toUser t = uid"
  let ?ts = "find_sorted_desc ?q (transactions s)"
  have "get_history s uid user = rekey_all (map tx_dict ?ts)"
    using assms by (simp add: get_history_def)
  then have "get_history s uid user =
      Inr (map (\<lambda>t. [(''fromUser'', PStr (fromUser t)), (''toUser'', PStr (toUser t)),
                     (''amount'', PFloat (amount t)),
                     (''timestamp'', PDatetime (timestamp t)),
                     (''id'', PStr (str_oid (tx_id t)))]) ?ts)"
    by (simp add: rekey_all_tx_dict)
  moreover have "mset ?ts = mset (filter ?q (transactions s))"
    by (rule find_sorted_desc_mset)
  moreover have "sorted_wrt (\<lambda>a b. timestamp b \<le> timestamp a) ?ts"
    by (rule find_sorted_desc_sorted)
  ultimately show ?thesis by blast
qed

lemma get_history_alice:
  "get_history db0 (str_oid alice_id) alice = Inr [history_entry tx2, history_entry tx1]"
proof -
  have "find_sorted_desc (\<lambda>t. fromUser t = str_oid alice_id \<or> toUser t = str_oid alice_id)
          (transactions db0) = [tx2, tx1]"
    by (simp add: db0_def find_sorted_desc_def tx1_def tx2_def tx3_def alice_id_def bob_id_def)
  then have "get_history db0 (str_oid alice_id) alice = rekey_all (map tx_dict [tx2, tx1])"
    by (simp add: get_history_def alice_def)
  then show ?thesis using rekey_all_tx_dict [of "[tx2, tx1]"] by simp
qed

theorem get_history_records_witness:
  "str_oid (user_id alice) = str_oid alice_id \<and>
   (\<exists>ts. get_history db0 (str_oid alice_id) alice =
            Inr (map (\<lambda>t. [(''fromUser'', PStr (fromUser t)), (''toUser'', PStr (toUser t)),
                           (''amount'', PFloat (amount t)),
                           (''timestamp'', PDatetime (timestamp t)),
                           (''id'', PStr (str_oid (tx_id t)))]) ts) \<and>
          mset ts = mset (filter (\<lambda>t. fromUser t = str_oid alice_id \<or> toUser t = str_oid alice_id)
                       (transactions db0)) \<and>
          sorted_wrt (\<lambda>a b. timestamp b \<le> timestamp a) ts)"
proof -
  have h: "str_oid (user_id alice) = str_oid alice_id" by (simp add: alice_def)
  from h get_history_records [OF h, of db0] show ?thesis by blast
qed

section \<open>Properties of the dashboard statistics\<close>


lemma mongo_sum_acc:
  fixes f :: "'a \<Rightarrow> 'b::monoid_add"
  shows "foldl (\<lambda>acc d. acc + f d) a docs = a + sum_list (map f docs)"
  by (induction docs arbitrary: a) (simp_all add: add.assoc)

lemma mongo_sum_sum_list:
  fixes f :: "'a \<Rightarrow> 'b::monoid_add"
  shows "mongo_sum f docs = sum_list (map f docs)"
  by (simp add: mongo_sum_def mongo_sum_acc)

lemma cond_sum_matched:
  fixes g :: "'a \<Rightarrow> 'b::monoid_add"
  shows "sum_list (map (\<lambda>t. if P t then g t else 0) (filter (\<lambda>t. P t \<or> Q t) docs)) =
         sum_list (map g (filter P docs))"
  by (induction docs) simp_all

lemma cond_sum_matched':
  fixes g :: "'a \<Rightarrow> 'b::monoid_add"
  shows "sum_list (map (\<lambda>t. if Q t then g t else 0) (filter (\<lambda>t. P t \<or> Q t) docs)) =
         sum_list (map g (filter Q docs))"
  by (induction docs) simp_all

lemma sum_list_ones: "sum_list (map (\<lambda>t. 1::int) xs) = int (length xs)"
  by (induction xs) simp_all

lemma aggregate_matched:
  assumes "filter (\<lambda>t. fromUser t = uid \<or> toUser t = uid) docs \<noteq> []"
  shows "aggregate uid docs =
     [\<lparr>total_sent = sum_list (map amount (filter (\<lambda>t. fromUser t = uid) docs)),
       total_received = sum_list (map amount (filter (\<lambda>t. toUser t = uid) docs)),
       count_sent = int (length (filter (\<lambda>t. fromUser t = uid) docs)),
       count_received = int (length (filter (\<lambda>t. toUser t = uid) docs))\<rparr>]"
  using assms
  by (simp add: aggregate_def mongo_sum_sum_list cond_sum_matched cond_sum_matched'
      sum_list_ones)

lemma filter_or_empty:
  "filter (\<lambda>t. P t \<or> Q t) docs = [] \<Longrightarrow> filter P docs = [] \<and> filter Q docs = []"
  by (induction docs) (auto split: if_splits)

text \<open>
  C3. The statistics of a user are the sum of the amounts of all stored records the user
  sent, the sum of the amounts of all stored records the user received, and the two
  numbers of such records; when no stored record names the user, all four are present
  and zero.
\<close>

theorem dashboard_stats_totals:
  "dashboard_stats s user =
     PDict
       [(''total_sent'', PFloat (sum_list (map amount
            (filter (\<lambda>t. fromUser t = str_oid (user_id user)) (transactions s))))),
        (''total_received'', PFloat (sum_list (map amount
            (filter (\<lambda>t. toUser t = str_oid (user_id user)) (transactions s))))),
        (''count_sent'', PInt (int (length
            (filter (\<lambda>t. fromUser t = str_oid (user_id user)) (transactions s))))),
        (''count_received'', PInt (int (length
            (filter (\<lambda>t. toUser t = str_oid (user_id user)) (transactions s)))))] \<and>
   ((\<forall>t \<in> set (transactions s).
        fromUser t \<noteq> str_oid (user_id user) \<and> toUser t \<noteq> str_oid (user_id user)) \<longrightarrow>
    dashboard_stats s user =
      PDict [(''total_sent'', PFloat 0), (''total_received'', PFloat 0),
             (''count_sent'', PInt 0), (''count_received'', PInt 0)])"
proof -
  let ?uid = "str_oid (user_id user)"
  let ?m = "filter (\<lambda>t. fromUser t = ?uid \<or> toUser t = ?uid) (transactions s)"
  have main: "dashboard_stats s user =
     PDict
       [(''total_sent'', PFloat (sum_list (map amount
            (filter (\<lambda>t. fromUser t = ?uid) (transactions s))))),
        (''total_received'', PFloat (sum_list (map amount
            (filter (\<lambda>t. toUser t = ?uid) (transactions s))))),
        (''count_sent'', PInt (int (length
            (filter (\<lambda>t. fromUser t = ?uid) (transactions s))))),
        (''count_received'', PInt (int (length
            (filter (\<lambda>t. toUser t = ?uid) (transactions s)))))]"
  proof (cases "?m = []")
    case True
    then have agg: "aggregate ?uid (transactions s) = []"
      by (simp add: aggregate_def)
    from True filter_or_empty [of "\<lambda>t. fromUser t = ?uid" "\<lambda>t. toUser t = ?uid" "transactions s"]
    have "filter (\<lambda>t. fromUser t = ?uid) (transactions s) = []"
      and "filter (\<lambda>t. toUser t = ?uid) (transactions s) = []"
      by simp_all
    with agg show ?thesis by (simp add: dashboard_stats_def)
  next
    case False
    from aggregate_matched [OF False] show ?thesis
      by (simp add: dashboard_stats_def)
  qed
  have zero: "filter (\<lambda>t. fromUser t = ?uid) (transactions s) = [] \<and>
              filter (\<lambda>t. toUser t = ?uid) (transactions s) = []"
    if "\<forall>t \<in> set (transactions s). fromUser t \<noteq> ?uid \<and> toUser t \<noteq> ?uid"
    using that by (simp add: filter_empty_conv)
  from main zero show ?thesis by simp
qed


theorem dashboard_stats_totals_witness:
  "dashboard_stats db0 carol =
     PDict [(''total_sent'', PFloat 0), (''total_received'', PFloat 0),
            (''count_sent'', PInt 0), (''count_received'', PInt 0)] \<and>
   dashboard_stats db0 bob =
     PDict [(''total_sent'', PFloat 9), (''total_received'', PFloat 12),
            (''count_sent'', PInt 2), (''count_received'', PInt 2)]"
proof -
  have h: "\<forall>t \<in> set (transactions db0).
      fromUser t \<noteq> str_oid (user_id carol) \<and> toUser t \<noteq> str_oid (user_id carol)"
    by (simp add: db0_def tx1_def tx2_def tx3_def carol_def alice_id_def bob_id_def carol_id_def)
  from dashboard_stats_totals [of db0 carol] h
  have "dashboard_stats db0 carol =
     PDict [(''total_sent'', PFloat 0), (''total_received'', PFloat 0),
            (''count_sent'', PInt 0), (''count_received'', PInt 0)]"
    by blast
  moreover from dashboard_stats_totals [of db0 bob]
  have "dashboard_stats db0 bob =
     PDict [(''total_sent'', PFloat 9), (''total_received'', PFloat 12),
            (''count_sent'', PInt 2), (''count_received'', PInt 2)]"
    by (simp add: db0_def tx1_def tx2_def tx3_def bob_def alice_id_def bob_id_def)
  ultimately show ?thesis by simp
qed

section \<open>Properties of sending money\<close>

lemma ObjectId_bob_upper: "ObjectId ''65A000000000000000000002'' = Inr bob_id"
  by (simp add: ObjectId_def is_hex_def is_lower_hex_def str_lower_def lower_char_def bob_id_def)

lemma ObjectId_unknown: "ObjectId ''65a0000000000000000000ff'' = Inr (Oid ''65a0000000000000000000ff'')"
  by (simp add: ObjectId_def is_hex_def is_lower_hex_def str_lower_def lower_char_def)

lemma ObjectId_bad: "ObjectId ''not-an-id'' = Inl InvalidId"
  by (simp add: ObjectId_def)

lemmas ex_defs = db0_def alice_def bob_def carol_def alice_id_def bob_id_def carol_id_def
  tx1_def tx2_def tx3_def

lemma find_bob_by_id: "find_one (\<lambda>u. user_id u = bob_id) (users db0) = Some bob"
  by (simp add: find_one_def ex_defs)

lemma find_bob_by_handle: "find_one (\<lambda>u. handle u = ''bob_2'') (users db0) = Some bob"
  by (simp add: find_one_def ex_defs)

lemma send_money_by_id:
  assumes "truthy (toUserId p)"
    and "ObjectId (str_val (toUserId p)) = Inr i"
    and "find_one (\<lambda>u. user_id u = i) (users s) = Some r"
  shows "send_money s now new_id p user =
     (Inr (PDict
        [(''status'', PStr ''sent''),
         (''transaction'', PDict
            [(''id'', PStr (str_oid new_id)),
             (''fromUser'', PStr (str_oid (user_id user))),
             (''toUser'', PStr (str_oid (user_id r))),
             (''amount'', PFloat (tc_amount p)),
             (''timestamp'', PDatetime now),
             (''_id'', PObjectId new_id)])]),
      s\<lparr>transactions := transactions s @
         [\<lparr>tx_id = new_id, fromUser = str_oid (user_id user), toUser = str_oid (user_id r),
           amount = tc_amount p, timestamp = now\<rparr>]\<rparr>)"
  using assms
  by (simp add: send_money_def insert_transaction_def dict_update_def dict_set_def)

lemma send_money_by_handle:
  assumes "\<not> truthy (toUserId p)"
    and "truthy (toHandle p)"
    and "find_one (\<lambda>u. handle u = str_val (toHandle p)) (users s) = Some r"
  shows "send_money s now new_id p user =
     (Inr (PDict
        [(''status'', PStr ''sent''),
         (''transaction'', PDict
            [(''id'', PStr (str_oid new_id)),
             (''fromUser'', PStr (str_oid (user_id user))),
             (''toUser'', PStr (str_oid (user_id r))),
             (''amount'', PFloat (tc_amount p)),
             (''timestamp'', PDatetime now),
             (''_id'', PObjectId new_id)])]),
      s\<lparr>transactions := transactions s @
         [\<lparr>tx_id = new_id, fromUser = str_oid (user_id user), toUser = str_oid (user_id r),
           amount = tc_amount p, timestamp = now\<rparr>]\<rparr>)"
  using assms
  by (simp add: send_money_def insert_transaction_def dict_update_def dict_set_def)

lemma send_money_invalid_id:
  assumes "truthy (toUserId p)" and "ObjectId (str_val (toUserId p)) = Inl e"
  shows "send_money s now new_id p user = (Inl (HTTPException 400 ''Invalid toUserId''), s)"
  using assms by (simp add: send_money_def)

lemma send_money_id_not_found:
  assumes "truthy (toUserId p)" and "ObjectId (str_val (toUserId p)) = Inr i"
    and "find_one (\<lambda>u. user_id u = i) (users s) = None"
  shows "send_money s now new_id p user = (Inl (HTTPException 404 ''Receiver not found''), s)"
  using assms by (simp add: send_money_def)

lemma send_money_handle_not_found:
  assumes "\<not> truthy (toUserId p)" and "truthy (toHandle p)"
    and "find_one (\<lambda>u. handle u = str_val (toHandle p)) (users s) = None"
  shows "send_money s now new_id p user = (Inl (HTTPException 404 ''Receiver not found''), s)"
  using assms by (simp add: send_money_def)

lemma send_money_not_specified:
  assumes "\<not> truthy (toUserId p)" and "\<not> truthy (toHandle p)"
  shows "send_money s now new_id p user = (Inl (HTTPException 400 ''Receiver not specified''), s)"
  using assms by (simp add: send_money_def)

lemma send_money_id_precedence:
  assumes "truthy (toUserId p)"
  shows "send_money s now new_id (p\<lparr>toHandle := h\<rparr>) user = send_money s now new_id p user"
  using assms by (simp add: send_money_def split: sum.splits option.splits)

lemma send_money_falsy_id:
  assumes "\<not> truthy (toUserId p)"
  shows "send_money s now new_id p user = send_money s now new_id (p\<lparr>toUserId := None\<rparr>) user"
  using assms by (simp add: send_money_def truthy_def split: sum.splits option.splits)

text \<open>
  C6. Receiver resolution of an authenticated send, where a field counts as supplied when
  it holds a non-empty string (the test the handler makes): with \<open>toUserId\<close> supplied
  the outcome does not depend on \<open>toHandle\<close>, and with both supplied the receiver is the
  user found under the identifier; with neither supplied the request fails with 400
  (receiver not specified); when the chosen lookup finds no user it fails with 404
  (receiver not found); when \<open>toUserId\<close> is no identifier it fails with 400 (invalid
  receiver reference). Every failure leaves the store as it was.
\<close>

theorem send_money_receiver_resolution:
  "(truthy (toUserId p) \<longrightarrow>
      send_money s now new_id (p\<lparr>toHandle := h\<rparr>) user = send_money s now new_id p user) \<and>
   (truthy (toUserId p) \<and> truthy (toHandle p) \<and> ObjectId (str_val (toUserId p)) = Inr i \<and>
    find_one (\<lambda>u. user_id u = i) (users s) = Some r \<longrightarrow>
      (\<exists>body. send_money s now new_id p user =
         (Inr body,
          s\<lparr>transactions := transactions s @
             [\<lparr>tx_id = new_id, fromUser = str_oid (user_id user), toUser = str_oid (user_id r),
               amount = tc_amount p, timestamp = now\<rparr>]\<rparr>))) \<and>
   (\<not> truthy (toUserId p) \<and> \<not> truthy (toHandle p) \<longrightarrow>
      send_money s now new_id p user = (Inl (HTTPException 400 ''Receiver not specified''), s)) \<and>
   (truthy (toUserId p) \<and> ObjectId (str_val (toUserId p)) = Inr i \<and>
    find_one (\<lambda>u. user_id u = i) (users s) = None \<longrightarrow>
      send_money s now new_id p user = (Inl (HTTPException 404 ''Receiver not found''), s)) \<and>
   (\<not> truthy (toUserId p) \<and> truthy (toHandle p) \<and>
    find_one (\<lambda>u. handle u = str_val (toHandle p)) (users s) = None \<longrightarrow>
      send_money s now new_id p user = (Inl (HTTPException 404 ''Receiver not found''), s)) \<and>
   (truthy (toUserId p) \<and> ObjectId (str_val (toUserId p)) = Inl InvalidId \<longrightarrow>
      send_money s now new_id p user = (Inl (HTTPException 400 ''Invalid toUserId''), s))"
  using send_money_id_precedence [of p s now new_id h user]
    send_money_by_id [of p i s r now new_id user]
    send_money_not_specified [of p s now new_id user]
    send_money_id_not_found [of p i s now new_id user]
    send_money_handle_not_found [of p s now new_id user]
    send_money_invalid_id [of p InvalidId s now new_id user]
  by blast

theorem send_money_receiver_resolution_witness:
  "send_money db0 9 new_tx_id (pay_both\<lparr>toHandle := Some ''nobody''\<rparr>) alice =
     send_money db0 9 new_tx_id pay_both alice \<and>
   (\<exists>body. send_money db0 9 new_tx_id pay_both alice =
      (Inr body,
       db0\<lparr>transactions := transactions db0 @
          [\<lparr>tx_id = new_tx_id, fromUser = str_oid (user_id alice), toUser = str_oid (user_id bob),
            amount = tc_amount pay_both, timestamp = 9\<rparr>]\<rparr>)) \<and>
   send_money db0 9 new_tx_id pay_none alice =
     (Inl (HTTPException 400 ''Receiver not specified''), db0) \<and>
   send_money db0 9 new_tx_id pay_unknown_id alice =
     (Inl (HTTPException 404 ''Receiver not found''), db0) \<and>
   send_money db0 9 new_tx_id pay_unknown_handle alice =
     (Inl (HTTPException 404 ''Receiver not found''), db0) \<and>
   send_money db0 9 new_tx_id pay_bad_id alice =
     (Inl (HTTPException 400 ''Invalid toUserId''), db0)"
proof -
  have t1: "truthy (toUserId pay_both)" "truthy (toHandle pay_both)"
    by (simp_all add: pay_both_def truthy_def)
  have o1: "ObjectId (str_val (toUserId pay_both)) = Inr bob_id"
    by (simp add: pay_both_def str_val_def ObjectId_bob_upper)
  have t2: "\<not> truthy (toUserId pay_none)" "\<not> truthy (toHandle pay_none)"
    by (simp_all add: pay_none_def truthy_def)
  have t3: "truthy (toUserId pay_unknown_id)"
    by (simp add: pay_unknown_id_def truthy_def)
  have o3: "ObjectId (str_val (toUserId pay_unknown_id)) = Inr (Oid ''65a0000000000000000000ff'')"
    by (simp add: pay_unknown_id_def str_val_def ObjectId_unknown)
  have f3: "find_one (\<lambda>u. user_id u = Oid ''65a0000000000000000000ff'') (users db0) = None"
    by (simp add: find_one_def ex_defs)
  have t4: "\<not> truthy (toUserId pay_unknown_handle)" "truthy (toHandle pay_unknown_handle)"
    by (simp_all add: pay_unknown_handle_def truthy_def)
  have f4: "find_one (\<lambda>u. handle u = str_val (toHandle pay_unknown_handle)) (users db0) = None"
    by (simp add: find_one_def ex_defs pay_unknown_handle_def str_val_def)
  have t5: "truthy (toUserId pay_bad_id)"
    by (simp add: pay_bad_id_def truthy_def)
  have o5: "ObjectId (str_val (toUserId pay_bad_id)) = Inl InvalidId"
    by (simp add: pay_bad_id_def str_val_def ObjectId_bad)
  from t1 o1 find_bob_by_id
    send_money_receiver_resolution [of pay_both db0 9 new_tx_id "Some ''nobody''" alice bob_id bob]
  have "send_money db0 9 new_tx_id (pay_both\<lparr>toHandle := Some ''nobody''\<rparr>) alice =
          send_money db0 9 new_tx_id pay_both alice"
    and "\<exists>body. send_money db0 9 new_tx_id pay_both alice =
      (Inr body,
       db0\<lparr>transactions := transactions db0 @
          [\<lparr>tx_id = new_tx_id, fromUser = str_oid (user_id alice), toUser = str_oid (user_id bob),
            amount = tc_amount pay_both, timestamp = 9\<rparr>]\<rparr>)"
    by blast+
  moreover from t2 send_money_receiver_resolution [of pay_none db0 9 new_tx_id None alice]
  have "send_money db0 9 new_tx_id pay_none alice =
     (Inl (HTTPException 400 ''Receiver not specified''), db0)"
    by blast
  moreover from t3 o3 f3
    send_money_receiver_resolution [of pay_unknown_id db0 9 new_tx_id None alice
      "Oid ''65a0000000000000000000ff''"]
  have "send_money db0 9 new_tx_id pay_unknown_id alice =
     (Inl (HTTPException 404 ''Receiver not found''), db0)"
    by blast
  moreover from t4 f4 send_money_receiver_resolution [of pay_unknown_handle db0 9 new_tx_id None alice]
  have "send_money db0 9 new_tx_id pay_unknown_handle alice =
     (Inl (HTTPException 404 ''Receiver not found''), db0)"
    by blast
  moreover from t5 o5 send_money_receiver_resolution [of pay_bad_id db0 9 new_tx_id None alice]
  have "send_money db0 9 new_tx_id pay_bad_id alice =
     (Inl (HTTPException 400 ''Invalid toUserId''), db0)"
    by blast
  ultimately show ?thesis by blast
qed

text \<open>
  C10. A send whose \<open>toUserId\<close> is the empty string behaves as the same request with no
  \<open>toUserId\<close>: it is never rejected as an invalid identifier, it resolves the receiver by
  \<open>toHandle\<close> when that is supplied, and it fails with 400 (receiver not specified) when
  \<open>toHandle\<close> is absent or empty.
\<close>

theorem send_money_empty_id:
  assumes "toUserId p = Some []"
  shows "send_money s now new_id p user = send_money s now new_id (p\<lparr>toUserId := None\<rparr>) user \<and>
         fst (send_money s now new_id p user) \<noteq> Inl (HTTPException 400 ''Invalid toUserId'') \<and>
         (truthy (toHandle p) \<and> find_one (\<lambda>u. handle u = str_val (toHandle p)) (users s) = Some r \<longrightarrow>
            (\<exists>body. send_money s now new_id p user =
               (Inr body,
                s\<lparr>transactions := transactions s @
                   [\<lparr>tx_id = new_id, fromUser = str_oid (user_id user),
                     toUser = str_oid (user_id r), amount = tc_amount p, timestamp = now\<rparr>]\<rparr>))) \<and>
         (truthy (toHandle p) \<and> find_one (\<lambda>u. handle u = str_val (toHandle p)) (users s) = None \<longrightarrow>
            send_money s now new_id p user = (Inl (HTTPException 404 ''Receiver not found''), s)) \<and>
         (\<not> truthy (toHandle p) \<longrightarrow>
            send_money s now new_id p user =
              (Inl (HTTPException 400 ''Receiver not specified''), s))"
proof -
  from assms have falsy: "\<not> truthy (toUserId p)" by (simp add: truthy_def)
  have a: "send_money s now new_id p user = send_money s now new_id (p\<lparr>toUserId := None\<rparr>) user"
    using falsy by (rule send_money_falsy_id)
  have b: "fst (send_money s now new_id p user) \<noteq> Inl (HTTPException 400 ''Invalid toUserId'')"
    using falsy by (simp add: send_money_def Let_def split: option.splits)
  from a b falsy send_money_by_handle [of p s r now new_id user]
    send_money_handle_not_found [of p s now new_id user]
    send_money_not_specified [of p s now new_id user]
  show ?thesis by blast
qed

theorem send_money_empty_id_witness:
  "toUserId pay_empty_id = Some [] \<and>
   (\<exists>body. send_money db0 9 new_tx_id pay_empty_id alice =
      (Inr body,
       db0\<lparr>transactions := transactions db0 @
          [\<lparr>tx_id = new_tx_id, fromUser = str_oid (user_id alice), toUser = str_oid (user_id bob),
            amount = tc_amount pay_empty_id, timestamp = 9\<rparr>]\<rparr>)) \<and>
   toUserId pay_empty_both = Some [] \<and>
   send_money db0 9 new_tx_id pay_empty_both alice =
     (Inl (HTTPException 400 ''Receiver not specified''), db0)"
proof -
  have e1: "toUserId pay_empty_id = Some []" by (simp add: pay_empty_id_def)
  have h1: "truthy (toHandle pay_empty_id)" by (simp add: pay_empty_id_def truthy_def)
  have f1: "find_one (\<lambda>u. handle u = str_val (toHandle pay_empty_id)) (users db0) = Some bob"
    by (simp add: pay_empty_id_def str_val_def find_bob_by_handle)
  have e2: "toUserId pay_empty_both = Some []" by (simp add: pay_empty_both_def)
  have h2: "\<not> truthy (toHandle pay_empty_both)" by (simp add: pay_empty_both_def truthy_def)
  from h1 f1 send_money_empty_id [OF e1, where s = db0 and r = bob and now = 9 and new_id = new_tx_id and user = alice]
  have "\<exists>body. send_money db0 9 new_tx_id pay_empty_id alice =
      (Inr body,
       db0\<lparr>transactions := transactions db0 @
          [\<lparr>tx_id = new_tx_id, fromUser = str_oid (user_id alice), toUser = str_oid (user_id bob),
            amount = tc_amount pay_empty_id, timestamp = 9\<rparr>]\<rparr>)"
    by blast
  moreover from h2 send_money_empty_id [OF e2, where s = db0 and r = bob and now = 9 and new_id = new_tx_id and user = alice]
  have "send_money db0 9 new_tx_id pay_empty_both alice =
     (Inl (HTTPException 400 ''Receiver not specified''), db0)"
    by blast
  ultimately show ?thesis using e1 e2 by blast
qed




section \<open>Properties of signup and authentication\<close>








lemma find_one_None_iff: "find_one q docs = None \<longleftrightarrow> (\<forall>u \<in> set docs. \<not> q u)"
  by (auto simp: find_one_def find_None_iff)





lemma find_one_Some_mem: "find_one q docs = Some d \<Longrightarrow> d \<in> set docs \<and> q d"
  by (auto simp: find_one_def find_Some_iff)

lemma signup_body:
  assumes "signup SECRET_KEY pwd_hash lower s now new_id token_now p = (Inr body, s')"
  shows "\<exists>d. d \<in> set (users s') \<and>
           body = PDict [(''token'', PToken (create_access_token SECRET_KEY (str_oid (user_id d))
                                              token_now None)),
                         (''user'', PDict (public_user_view d))]"
proof -
  let ?doc = "\<lparr>user_id = new_id, name = uc_name p, handle = uc_handle p,
               email = lower (uc_email p), password_hash = pwd_hash (uc_password p),
               profileImg = uc_profileImg p, qrCodeUrl = None, dateCreated = now\<rparr>"
  from assms have "s' = s\<lparr>users := users s @ [?doc]\<rparr>" and
    "body = PDict [(''token'', PToken (create_access_token SECRET_KEY (str_oid (user_id ?doc))
                                              token_now None)),
                         (''user'', PDict (public_user_view ?doc))]"
    by (auto simp: signup_def insert_user_def public_user_view_def split: if_splits)
  then show ?thesis by (intro exI [of _ ?doc]) simp
qed

lemma login_body:
  assumes "login SECRET_KEY pwd_verify lower s token_now q = Inr body"
  shows "\<exists>d. d \<in> set (users s) \<and>
           body = PDict [(''token'', PToken (create_access_token SECRET_KEY (str_oid (user_id d))
                                              token_now None)),
                         (''user'', PDict (public_user_view d))]"
proof (cases "find_one (\<lambda>u. email u = lower (ul_email q)) (users s)")
  case None
  with assms show ?thesis by (simp add: login_def)
next
  case (Some d)
  with assms have "body = PDict [(''token'', PToken (create_access_token SECRET_KEY
                                    (str_oid (user_id d)) token_now None)),
                         (''user'', PDict (public_user_view d))]"
    by (simp add: login_def public_user_view_def split: if_splits)
  moreover from Some have "d \<in> set (users s)" by (simp add: find_one_Some_mem)
  ultimately show ?thesis by blast
qed

lemma get_profile_body:
  assumes "get_profile s h = Inr body"
  shows "\<exists>d. d \<in> set (users s) \<and> body = PDict (public_user_view d)"
proof (cases "find_one (\<lambda>u. handle u = h) (users s)")
  case None
  with assms show ?thesis by (simp add: get_profile_def)
next
  case (Some d)
  with assms have "body = PDict (public_user_view d)"
    by (simp add: get_profile_def public_user_view_def)
  moreover from Some have "d \<in> set (users s)" by (simp add: find_one_Some_mem)
  ultimately show ?thesis by blast
qed

text \<open>
  C4. Whenever signup, login or the profile lookup answers with a body, the user view in
  it is the public user view of a stored user document: its keys are exactly \<open>id\<close>,
  \<open>name\<close>, \<open>handle\<close>, \<open>profileImg\<close>, \<open>qrCodeUrl\<close> and \<open>dateCreated\<close>, and it is the
  same whatever the stored password hash is. The token beside it is built from the
  user's identifier alone.
\<close>

theorem user_view_public_fields_only:
  "(signup SECRET_KEY pwd_hash lower s now new_id token_now p = (Inr body, s') \<longrightarrow>
      (\<exists>d. d \<in> set (users s') \<and>
           body = PDict [(''token'', PToken (create_access_token SECRET_KEY (str_oid (user_id d))
                                              token_now None)),
                         (''user'', PDict (public_user_view d))])) \<and>
   (login SECRET_KEY pwd_verify lower s token_now q = Inr body \<longrightarrow>
      (\<exists>d. d \<in> set (users s) \<and>
           body = PDict [(''token'', PToken (create_access_token SECRET_KEY (str_oid (user_id d))
                                              token_now None)),
                         (''user'', PDict (public_user_view d))])) \<and>
   (get_profile s h = Inr body \<longrightarrow>
      (\<exists>d. d \<in> set (users s) \<and> body = PDict (public_user_view d))) \<and>
   map fst (public_user_view d) =
     [''id'', ''name'', ''handle'', ''profileImg'', ''qrCodeUrl'', ''dateCreated''] \<and>
   public_user_view (d\<lparr>password_hash := x\<rparr>) = public_user_view d"
  using signup_body [of SECRET_KEY pwd_hash lower s now new_id token_now p body s']
    login_body [of SECRET_KEY pwd_verify lower s token_now q body]
    get_profile_body [of s h body]
  by (simp add: public_user_view_def)

theorem user_view_public_fields_only_witness:
  "(\<exists>d. d \<in> set (users db0 @ [dave_doc]) \<and>
        PDict [(''token'', PToken (create_access_token ''dev-secret'' (str_oid dave_id) 7000001 None)),
               (''user'', PDict (public_user_view dave_doc))] =
        PDict [(''token'', PToken (create_access_token ''dev-secret'' (str_oid (user_id d))
                                     7000001 None)),
               (''user'', PDict (public_user_view d))]) \<and>
   (\<exists>d. d \<in> set (users db0) \<and>
        PDict [(''token'', PToken (create_access_token ''dev-secret'' (str_oid bob_id) 7000001 None)),
               (''user'', PDict (public_user_view bob))] =
        PDict [(''token'', PToken (create_access_token ''dev-secret'' (str_oid (user_id d))
                                     7000001 None)),
               (''user'', PDict (public_user_view d))]) \<and>
   (\<exists>d. d \<in> set (users db0) \<and> PDict (public_user_view bob) = PDict (public_user_view d))"
proof -
  have r1: "signup ''dev-secret'' demo_hash str_lower db0 7000000 dave_id 7000001 signup_dave =
      (Inr (PDict [(''token'', PToken (create_access_token ''dev-secret'' (str_oid dave_id)
                                         7000001 None)),
                   (''user'', PDict (public_user_view dave_doc))]),
       db0\<lparr>users := users db0 @ [dave_doc]\<rparr>)"
    by (simp add: signup_def find_one_def ex_defs signup_dave_def str_lower_def lower_char_def
        insert_user_def public_user_view_def dave_doc_def demo_hash_def)
  have r2: "login ''dev-secret'' demo_verify str_lower db0 7000001 login_bob =
      Inr (PDict [(''token'', PToken (create_access_token ''dev-secret'' (str_oid bob_id)
                                        7000001 None)),
                  (''user'', PDict (public_user_view bob))])"
    by (simp add: login_def find_one_def ex_defs login_bob_def str_lower_def lower_char_def
        public_user_view_def demo_verify_def demo_hash_def)
  have r3: "get_profile db0 ''bob_2'' = Inr (PDict (public_user_view bob))"
    by (simp add: get_profile_def find_one_def ex_defs public_user_view_def)
  from r1 user_view_public_fields_only [where SECRET_KEY = "''dev-secret''" and pwd_hash = demo_hash
      and lower = str_lower
      and s = db0 and now = 7000000 and new_id = dave_id and token_now = 7000001
      and p = signup_dave and s' = "db0\<lparr>users := users db0 @ [dave_doc]\<rparr>"
      and body = "PDict [(''token'', PToken (create_access_token ''dev-secret'' (str_oid dave_id)
                                         7000001 None)),
                   (''user'', PDict (public_user_view dave_doc))]"]
  have c1: "\<exists>d. d \<in> set (users db0 @ [dave_doc]) \<and>
        PDict [(''token'', PToken (create_access_token ''dev-secret'' (str_oid dave_id) 7000001 None)),
               (''user'', PDict (public_user_view dave_doc))] =
        PDict [(''token'', PToken (create_access_token ''dev-secret'' (str_oid (user_id d))
                                     7000001 None)),
               (''user'', PDict (public_user_view d))]"
    by simp
  from r2 user_view_public_fields_only [where SECRET_KEY = "''dev-secret''" and lower = str_lower
      and pwd_verify = demo_verify and s = db0 and token_now = 7000001 and q = login_bob
      and body = "PDict [(''token'', PToken (create_access_token ''dev-secret'' (str_oid bob_id)
                                        7000001 None)),
                  (''user'', PDict (public_user_view bob))]"]
  have c2: "\<exists>d. d \<in> set (users db0) \<and>
        PDict [(''token'', PToken (create_access_token ''dev-secret'' (str_oid bob_id) 7000001 None)),
               (''user'', PDict (public_user_view bob))] =
        PDict [(''token'', PToken (create_access_token ''dev-secret'' (str_oid (user_id d))
                                     7000001 None)),
               (''user'', PDict (public_user_view d))]"
    by blast
  from r3 user_view_public_fields_only [where s = db0 and h = "''bob_2''"
      and body = "PDict (public_user_view bob)"]
  have c3: "\<exists>d. d \<in> set (users db0) \<and> PDict (public_user_view bob) = PDict (public_user_view d)"
    by blast
  from c1 c2 c3 show ?thesis by blast
qed

section \<open>Duplicate handles and emails\<close>

lemma find_one_exists: "(\<exists>u \<in> set docs. q u) \<longleftrightarrow> find_one q docs \<noteq> None"
  by (auto simp: find_one_def find_None_iff)

text \<open>
  C8, as the claim states it, fails: a signup whose handle and email are both taken is
  refused for the handle, not for the email.
\<close>

theorem signup_duplicate_email_counterexample:
  "bob \<in> set (users db0) \<and> email bob = str_lower (uc_email signup_taken_both) \<and>
   signup ''dev-secret'' demo_hash str_lower db0 7000000 dave_id 7000001 signup_taken_both =
     (Inl (HTTPException 400 ''Handle already taken''), db0) \<and>
   signup ''dev-secret'' demo_hash str_lower db0 7000000 dave_id 7000001 signup_taken_both \<noteq>
     (Inl (HTTPException 400 ''Email already registered''), db0)"
  by (simp add: signup_def find_one_def ex_defs signup_taken_both_def str_lower_def lower_char_def)

text \<open>
  C8, amended. A signup whose handle belongs to a stored user fails with 400 (handle
  already taken), whatever the other fields are. A signup whose lowercased email belongs
  to a stored user fails with 400 in every case: with the duplicate-email error when the
  handle is free, since the handle is checked first. No user is created in either case.
\<close>

theorem signup_duplicate_rejected:
  "((\<exists>u \<in> set (users s). handle u = uc_handle p) \<longrightarrow>
      signup SECRET_KEY pwd_hash lower s now new_id token_now p =
        (Inl (HTTPException 400 ''Handle already taken''), s)) \<and>
   ((\<forall>u \<in> set (users s). handle u \<noteq> uc_handle p) \<and>
    (\<exists>u \<in> set (users s). email u = lower (uc_email p)) \<longrightarrow>
      signup SECRET_KEY pwd_hash lower s now new_id token_now p =
        (Inl (HTTPException 400 ''Email already registered''), s)) \<and>
   ((\<exists>u \<in> set (users s). email u = lower (uc_email p)) \<longrightarrow>
      (\<exists>detail. signup SECRET_KEY pwd_hash lower s now new_id token_now p =
         (Inl (HTTPException 400 detail), s)))"
proof -
  have a: "signup SECRET_KEY pwd_hash lower s now new_id token_now p =
        (Inl (HTTPException 400 ''Handle already taken''), s)"
    if "\<exists>u \<in> set (users s). handle u = uc_handle p"
    using that find_one_exists [of "users s" "\<lambda>u. handle u = uc_handle p"]
    by (simp add: signup_def)
  have b: "signup SECRET_KEY pwd_hash lower s now new_id token_now p =
        (Inl (HTTPException 400 ''Email already registered''), s)"
    if "\<forall>u \<in> set (users s). handle u \<noteq> uc_handle p"
      and "\<exists>u \<in> set (users s). email u = lower (uc_email p)"
    using that find_one_exists [of "users s" "\<lambda>u. handle u = uc_handle p"]
      find_one_exists [of "users s" "\<lambda>u. email u = lower (uc_email p)"]
    by (simp add: signup_def)
  from a b show ?thesis by blast
qed

theorem signup_duplicate_rejected_witness:
  "signup ''dev-secret'' demo_hash str_lower db0 7000000 dave_id 7000001 signup_taken_handle =
     (Inl (HTTPException 400 ''Handle already taken''), db0) \<and>
   signup ''dev-secret'' demo_hash str_lower db0 7000000 dave_id 7000001 signup_taken_email =
     (Inl (HTTPException 400 ''Email already registered''), db0) \<and>
   (\<exists>detail. signup ''dev-secret'' demo_hash str_lower db0 7000000 dave_id 7000001 signup_taken_both =
      (Inl (HTTPException 400 detail), db0))"
proof -
  have h1: "\<exists>u \<in> set (users db0). handle u = uc_handle signup_taken_handle"
    by (simp add: ex_defs signup_taken_handle_def)
  have h2: "\<forall>u \<in> set (users db0). handle u \<noteq> uc_handle signup_taken_email"
    by (simp add: ex_defs signup_taken_email_def)
  have h3: "\<exists>u \<in> set (users db0). email u = str_lower (uc_email signup_taken_email)"
    by (simp add: ex_defs signup_taken_email_def str_lower_def lower_char_def)
  have h4: "\<exists>u \<in> set (users db0). email u = str_lower (uc_email signup_taken_both)"
    by (simp add: ex_defs signup_taken_both_def str_lower_def lower_char_def)
  from h1 signup_duplicate_rejected [of db0 signup_taken_handle "''dev-secret''" demo_hash
      str_lower 7000000 dave_id 7000001]
  have "signup ''dev-secret'' demo_hash str_lower db0 7000000 dave_id 7000001 signup_taken_handle =
     (Inl (HTTPException 400 ''Handle already taken''), db0)"
    by blast
  moreover from h2 h3 signup_duplicate_rejected [of db0 signup_taken_email "''dev-secret''" demo_hash
      str_lower 7000000 dave_id 7000001]
  have "signup ''dev-secret'' demo_hash str_lower db0 7000000 dave_id 7000001 signup_taken_email =
     (Inl (HTTPException 400 ''Email already registered''), db0)"
    by blast
  moreover from h4 signup_duplicate_rejected [of db0 signup_taken_both "''dev-secret''" demo_hash
      str_lower 7000000 dave_id 7000001]
  have "\<exists>detail. signup ''dev-secret'' demo_hash str_lower db0 7000000 dave_id 7000001 signup_taken_both =
      (Inl (HTTPException 400 detail), db0)"
    by blast
  ultimately show ?thesis by blast
qed

end
